theory Spec2Isabelle
  imports Main "HOL-Library.Sublist"
begin

section \<open>Python strings\<close>

text \<open>
  A Python \<open>str\<close> is modelled as a \<open>string\<close> whose characters are code points below 256.
  \<open>a in b\<close> on strings is \<open>sublist a b\<close>, \<open>b.startswith(a)\<close> is \<open>prefix a b\<close>.
  \<open>str.upper\<close> and \<open>str.lower\<close> are modelled on the ASCII letters; every other character
  is left as it is.
\<close>

definition py_upper_char :: "char \<Rightarrow> char" where
  "py_upper_char c =
     (if (97::nat) \<le> of_char c \<and> of_char c \<le> (122::nat)
      then char_of (of_char c - (32::nat)) else c)"

definition py_lower_char :: "char \<Rightarrow> char" where
  "py_lower_char c =
     (if (65::nat) \<le> of_char c \<and> of_char c \<le> (90::nat)
      then char_of (of_char c + (32::nat)) else c)"

definition py_upper :: "string \<Rightarrow> string" where
  "py_upper s = map py_upper_char s"

definition py_lower :: "string \<Rightarrow> string" where
  "py_lower s = map py_lower_char s"

text \<open>The characters \<open>str.strip()\<close> removes: those for which \<open>str.isspace\<close> holds.\<close>

definition py_isspace :: "char \<Rightarrow> bool" where
  "py_isspace c = (of_char c \<in> {9, 10, 11, 12, 13, 28, 29, 30, 31, 32, 133, 160 :: nat})"

definition py_strip :: "string \<Rightarrow> string" where
  "py_strip s = rev (dropWhile py_isspace (rev (dropWhile py_isspace s)))"

text \<open>\<open>s.strip(chars)\<close> with an explicit set of characters.\<close>

definition py_strip_chars :: "string \<Rightarrow> string \<Rightarrow> string" where
  "py_strip_chars chars s =
     rev (dropWhile (\<lambda>c. c \<in> set chars) (rev (dropWhile (\<lambda>c. c \<in> set chars) s)))"

datatype py_error =
    IndexError | AttributeError | ValueError | UnboundLocalError | TypeError | OverflowError
  | SqliteWarning

section \<open>Validator (backend/validator.py)\<close>

text \<open>
  \<open>sqlparse\<close> is a third-party library. Its \<open>parse\<close> is a parameter of the model: it maps
  the SQL text to the statements it splits it into, each statement being the list of its
  top-level tokens. Of a token the validator reads \<open>value\<close> and \<open>is_whitespace\<close>.
\<close>

record sql_token =
  tok_value :: string
  tok_is_whitespace :: bool

type_synonym sql_statement = "sql_token list"
type_synonym sql_parser = "string \<Rightarrow> sql_statement list"

text \<open>
  The dict returned by \<open>validate\<close>; a key that a branch does not set is \<open>None\<close>.
\<close>

record validation_result =
  is_valid :: bool
  error :: "string option"
  warning :: "string option"
  tables_used :: "string list option"

definition validation_failure :: "string \<Rightarrow> validation_result" where
  "validation_failure msg =
     \<lparr>is_valid = False, error = Some msg, warning = None, tables_used = None\<rparr>"

text \<open>\<open>schema_tables\<close>: the dict from table name to column names, in insertion order.\<close>

type_synonym schema_tables = "(string \<times> string list) list"

definition forbidden :: "string list" where
  "forbidden = [''DROP'', ''DELETE'', ''UPDATE'', ''INSERT'', ''ALTER'']"

text \<open>\<open>[t.value.upper() for t in stmt.tokens if not t.is_whitespace]\<close>\<close>

definition significant_tokens :: "sql_statement \<Rightarrow> string list" where
  "significant_tokens stmt =
     map (\<lambda>t. py_upper (tok_value t)) (filter (\<lambda>t. \<not> tok_is_whitespace t) stmt)"

definition validate :: "schema_tables \<Rightarrow> sql_parser \<Rightarrow> string \<Rightarrow> py_error + validation_result" where
  "validate schema parse sql =
     (case parse sql of
        [] \<Rightarrow> Inr (validation_failure ''Invalid SQL syntax'')
      | stmt # _ \<Rightarrow>
          (case significant_tokens stmt of
             [] \<Rightarrow> Inl IndexError
           | t0 # ts \<Rightarrow>
               if \<not> sublist ''SELECT'' t0
               then Inr (validation_failure ''Only SELECT statements are allowed'')
               else
                 (case find (\<lambda>word. word \<in> set (t0 # ts)) forbidden of
                    Some word \<Rightarrow>
                      Inr (validation_failure (''Forbidden operation detected: '' @ word))
                  | None \<Rightarrow>
                      let sql_str = py_upper sql;
                          tables_found =
                            filter (\<lambda>table. sublist (py_upper table) sql_str) (map fst schema)
                      in if tables_found = []
                         then Inr \<lparr>is_valid = True, error = None,
                                   warning = Some ''No known tables referenced'',
                                   tables_used = Some []\<rparr>
                         else Inr \<lparr>is_valid = True, error = None, warning = None,
                                   tables_used = Some tables_found\<rparr>)))"


section \<open>Python values\<close>







section \<open>Logging decorator (backend/logger\<open>_\<close>config.py)\<close>


section \<open>Executor (backend/executor.py)\<close>










text \<open>The dict returned by \<open>run_query\<close>; a key that a branch does not set is \<open>None\<close>.\<close>

record 'row exec_result =
  success :: bool
  results :: "'row list option"
  message :: "string option"
  exec_error :: "string option"







section \<open>Pipeline (backend/pipeline.py)\<close>

record pipeline_config =
  max_retries :: int
  sql_row_limit :: int


text \<open>
  \<open>PipelineDiagnostics\<close>. The field \<open>timings_ms\<close> holds wall-clock measurements and is left
  out of the model.
\<close>

record pipeline_diagnostics =
  retries :: int
  validator_fail_reasons :: "string list"
  executor_errors :: "string list"
  generated_sql :: "string option"
  final_sql :: "string option"
  chosen_tables :: "string list"
  detected_capabilities :: "string list"

text \<open>The keys of the planner's plan and of the retriever's bundle that \<open>run\<close> reads.\<close>

record plan =
  plan_tables :: "string list"
  plan_capabilities :: "string list"
  plan_follow_up_suggestions :: "string list"

record ctx_bundle =
  bundle_schema_context :: "string list"
  bundle_tables_found :: "string list"

record gen_ctx =
  ctx_schema_context :: "string list"
  ctx_tables_found :: "string list"
  ctx_detected_capabilities :: "string list"
  ctx_detected_tables :: "string list"
  ctx_clarified_values :: "(string \<times> string) list"
  ctx_retrieval_context :: ctx_bundle

text \<open>
  The six agents are objects handed to the pipeline. Each method is a function on a world
  \<open>'w\<close> (the language model, the database, the vector store), which it may change, and
  yields a value or the exception \<open>'x\<close> it raises.
\<close>

record ('w, 'x, 'row, 's) agents =
  planner_analyze_query :: "string \<Rightarrow> 'w \<Rightarrow> ('x + plan) \<times> 'w"
  retriever_fetch_schema_context :: "string \<Rightarrow> 'w \<Rightarrow> ('x + ctx_bundle) \<times> 'w"
  generator_generate ::
    "string \<Rightarrow> ctx_bundle \<Rightarrow> gen_ctx \<Rightarrow> schema_tables \<Rightarrow> 'w \<Rightarrow> ('x + string) \<times> 'w"
  generator_repair_sql :: "string \<Rightarrow> gen_ctx \<Rightarrow> string \<Rightarrow> 'w \<Rightarrow> ('x + string) \<times> 'w"
  validator_validate :: "string \<Rightarrow> 'w \<Rightarrow> ('x + validation_result) \<times> 'w"
  executor_run_query ::
    "string \<Rightarrow> int \<Rightarrow> validation_result \<Rightarrow> 'w \<Rightarrow> ('x + 'row exec_result) \<times> 'w"
  summarizer_summarize :: "string \<Rightarrow> 'row exec_result \<Rightarrow> 'w \<Rightarrow> ('x + 's) \<times> 'w"

text \<open>
  The calls the retry loop makes, in order: \<open>validate(sql)\<close> with its result,
  \<open>run_query(sql, limit, validation_context)\<close>, and \<open>repair_sql(..., hint)\<close>.
\<close>

datatype call =
    Validate string validation_result
  | Execute string int validation_result
  | Repair string

text \<open>The local variables of \<open>run\<close> during the loop, the world, and the calls made so far.\<close>

record 'w loop_state =
  attempts :: int
  cur_sql :: string
  last_error :: "string option"
  diag :: pipeline_diagnostics
  world :: 'w
  calls :: "call list"

datatype ('w, 'x, 'row) loop_exit =
    Returned "'row exec_result" "'w loop_state"
  | Exhausted "'w loop_state"
  | Raised 'x "'w loop_state"

definition note_failure :: "'w loop_state \<Rightarrow> 'w loop_state" where
  "note_failure st =
     st\<lparr>attempts := attempts st + 1,
        diag := (diag st)\<lparr>retries := attempts st + 1\<rparr>\<rparr>"

text \<open>
  The end of an iteration that failed: \<open>break\<close> when the attempts are used up, otherwise
  \<open>sql = self.generator.repair_sql(nl_query, gen_ctx, hint=...)\<close>. \<open>Inl\<close> leaves the loop,
  \<open>Inr\<close> is the state of the next iteration.
\<close>

definition repair_or_break ::
  "('w, 'x, 'row, 's) agents \<Rightarrow> pipeline_config \<Rightarrow> string \<Rightarrow> gen_ctx \<Rightarrow> string
     \<Rightarrow> 'w loop_state \<Rightarrow> ('w, 'x, 'row) loop_exit + 'w loop_state" where
  "repair_or_break ag cfg nl_query gctx hint st =
     (if attempts st > max_retries cfg then Inl (Exhausted st)
      else
        case generator_repair_sql ag nl_query gctx hint (world st) of
          (Inl x, w) \<Rightarrow> Inl (Raised x (st\<lparr>world := w, calls := calls st @ [Repair hint]\<rparr>))
        | (Inr sql', w) \<Rightarrow>
            Inr (st\<lparr>cur_sql := sql', world := w, calls := calls st @ [Repair hint]\<rparr>))"

text \<open>The body of the loop \<open>while attempts <= self.cfg.max_retries\<close>.\<close>

definition loop_body ::
  "('w, 'x, 'row, 's) agents \<Rightarrow> pipeline_config \<Rightarrow> string \<Rightarrow> gen_ctx \<Rightarrow> 'w loop_state
     \<Rightarrow> ('w, 'x, 'row) loop_exit + 'w loop_state" where
  "loop_body ag cfg nl_query gctx st =
     (case validator_validate ag (cur_sql st) (world st) of
        (Inl x, w1) \<Rightarrow> Inl (Raised x (st\<lparr>world := w1\<rparr>))
      | (Inr v, w1) \<Rightarrow>
          let st1 = st\<lparr>world := w1, calls := calls st @ [Validate (cur_sql st) v]\<rparr> in
          if \<not> is_valid v then
            let reason = (case error v of None \<Rightarrow> ''unknown validation error'' | Some e \<Rightarrow> e)
            in repair_or_break ag cfg nl_query gctx reason
                 (note_failure
                    (st1\<lparr>diag := (diag st1)\<lparr>validator_fail_reasons :=
                             validator_fail_reasons (diag st1) @ [reason]\<rparr>\<rparr>))
          else
            (case executor_run_query ag (cur_sql st1) (sql_row_limit cfg) v (world st1) of
               (Inl x, w2) \<Rightarrow>
                 Inl (Raised x
                        (st1\<lparr>world := w2,
                             calls := calls st1 @ [Execute (cur_sql st1) (sql_row_limit cfg) v]\<rparr>))
             | (Inr exec_result, w2) \<Rightarrow>
                 let st2 = st1\<lparr>world := w2,
                                calls := calls st1 @ [Execute (cur_sql st1) (sql_row_limit cfg) v]\<rparr>
                 in if success exec_result
                    then Inl (Returned exec_result
                                (st2\<lparr>diag := (diag st2)\<lparr>final_sql := Some (cur_sql st2),
                                                          retries := attempts st2\<rparr>\<rparr>))
                    else
                      let err = (case exec_error exec_result of None \<Rightarrow> ''unknown'' | Some e \<Rightarrow> e)
                      in repair_or_break ag cfg nl_query gctx err
                           (note_failure
                              (st2\<lparr>diag := (diag st2)\<lparr>executor_errors :=
                                       executor_errors (diag st2) @ [err]\<rparr>,
                                   last_error := Some err\<rparr>))))"

function run_loop ::
  "('w, 'x, 'row, 's) agents \<Rightarrow> pipeline_config \<Rightarrow> string \<Rightarrow> gen_ctx \<Rightarrow> 'w loop_state
     \<Rightarrow> ('w, 'x, 'row) loop_exit" where
  "run_loop ag cfg nl_query gctx st =
     (if \<not> attempts st \<le> max_retries cfg then Exhausted st
      else
        case loop_body ag cfg nl_query gctx st of
          Inl e \<Rightarrow> e
        | Inr st' \<Rightarrow> run_loop ag cfg nl_query gctx st')"
  by pat_completeness auto
termination
  by (relation "measure (\<lambda>(ag, cfg, nl_query, gctx, st). nat (max_retries cfg + 1 - attempts st))")
     (auto simp: loop_body_def repair_or_break_def note_failure_def Let_def
           split: prod.splits sum.splits if_splits)

text \<open>\<open>sep.join(xs)\<close>\<close>

fun py_join :: "string \<Rightarrow> string list \<Rightarrow> string" where
  "py_join sep [] = []"
| "py_join sep [x] = x"
| "py_join sep (x # y # ys) = x @ sep @ py_join sep (y # ys)"

text \<open>
  The dict \<open>run\<close> returns. On success it is the summarizer's dict (kept in \<open>out_summary\<close>)
  updated with the keys below; on failure \<open>out_tables\<close> is the key \<open>tables_attempted\<close>.
\<close>

record ('row, 's) pipeline_output =
  out_success :: bool
  out_error :: "string option"
  out_sql :: string
  out_diagnostics :: pipeline_diagnostics
  out_summary :: "'s option"
  out_table :: "'row list"
  out_execution_message :: string
  out_generated_sql :: "string option"
  out_suggestions :: "string list"
  out_capabilities :: "string list"
  out_tables :: "string list"

text \<open>
  \<open>NL2SQLPipeline.run(nl_query, clarified_values)\<close>. Its value is the dict returned or the
  exception an agent raised, the calls the retry loop made, and the world left behind.
\<close>

definition run ::
  "('w, 'x, 'row, 's) agents \<Rightarrow> pipeline_config \<Rightarrow> schema_tables \<Rightarrow> string
     \<Rightarrow> (string \<times> string) list \<Rightarrow> 'w
     \<Rightarrow> ('x + ('row, 's) pipeline_output) \<times> call list \<times> 'w" where
  "run ag cfg schema nl_query clarified_values w =
     (case planner_analyze_query ag nl_query w of
        (Inl x, w1) \<Rightarrow> (Inl x, [], w1)
      | (Inr pl, w1) \<Rightarrow>
          let d0 = \<lparr>retries = 0, validator_fail_reasons = [], executor_errors = [],
                    generated_sql = None, final_sql = None,
                    chosen_tables = plan_tables pl,
                    detected_capabilities = plan_capabilities pl\<rparr>;
              retrieval_query =
                ''tables: '' @ py_join '' '' (plan_tables pl) @ '' query: '' @ nl_query
          in
          (case retriever_fetch_schema_context ag retrieval_query w1 of
             (Inl x, w2) \<Rightarrow> (Inl x, [], w2)
           | (Inr bundle, w2) \<Rightarrow>
               let gctx = \<lparr>ctx_schema_context = bundle_schema_context bundle,
                           ctx_tables_found = bundle_tables_found bundle,
                           ctx_detected_capabilities = plan_capabilities pl,
                           ctx_detected_tables = plan_tables pl,
                           ctx_clarified_values = clarified_values,
                           ctx_retrieval_context = bundle\<rparr>
               in
               (case generator_generate ag nl_query bundle gctx schema w2 of
                  (Inl x, w3) \<Rightarrow> (Inl x, [], w3)
                | (Inr sql0, w3) \<Rightarrow>
                    (case run_loop ag cfg nl_query gctx
                            \<lparr>attempts = 0, cur_sql = sql0, last_error = None,
                             diag = d0\<lparr>generated_sql := Some sql0\<rparr>,
                             world = w3, calls = []\<rparr> of
                       Raised x st \<Rightarrow> (Inl x, calls st, world st)
                     | Exhausted st \<Rightarrow>
                         (Inr \<lparr>out_success = False,
                               out_error =
                                 Some (case last_error st of
                                         None \<Rightarrow> ''Could not produce safe SQL''
                                       | Some e \<Rightarrow>
                                           if e = [] then ''Could not produce safe SQL'' else e),
                               out_sql = cur_sql st,
                               out_diagnostics = diag st,
                               out_summary = None,
                               out_table = [],
                               out_execution_message = [],
                               out_generated_sql = None,
                               out_suggestions = [],
                               out_capabilities = plan_capabilities pl,
                               out_tables = chosen_tables (diag st)\<rparr>,
                          calls st, world st)
                     | Returned exec_result st \<Rightarrow>
                         (case summarizer_summarize ag nl_query exec_result (world st) of
                            (Inl x, w4) \<Rightarrow> (Inl x, calls st, w4)
                          | (Inr summary, w4) \<Rightarrow>
                              (Inr \<lparr>out_success = True,
                                    out_error = None,
                                    out_sql = cur_sql st,
                                    out_diagnostics = diag st,
                                    out_summary = Some summary,
                                    out_table =
                                      (case results exec_result of None \<Rightarrow> [] | Some rs \<Rightarrow> rs),
                                    out_execution_message =
                                      (case message exec_result of None \<Rightarrow> [] | Some m \<Rightarrow> m),
                                    out_generated_sql = generated_sql (diag st),
                                    out_suggestions = plan_follow_up_suggestions pl,
                                    out_capabilities = plan_capabilities pl,
                                    out_tables = chosen_tables (diag st)\<rparr>,
                               calls st, w4))))))"


section \<open>Planner (backend/planner.py)\<close>

text \<open>
  The regular expressions of \<open>_detect_clarifications\<close>, on ASCII text. \<open>\w\<close> is a letter,
  a digit or the underscore; \<open>\b\<close> lies between a word character and a character that is
  not one, the ends of the text counting as not one.
\<close>

definition py_isdigit :: "char \<Rightarrow> bool" where
  "py_isdigit c = ((48::nat) \<le> of_char c \<and> of_char c \<le> (57::nat))"

definition py_isword :: "char \<Rightarrow> bool" where
  "py_isword c =
     (py_isdigit c \<or> ((65::nat) \<le> of_char c \<and> of_char c \<le> (90::nat))
      \<or> ((97::nat) \<le> of_char c \<and> of_char c \<le> (122::nat)) \<or> c = CHR ''_'')"

text \<open>
  \<open>\b(20\d{2}|202\d)\b\<close> matched at the head of the text, given whether the character
  before it is a word character.
\<close>

fun year_token_here :: "bool \<Rightarrow> string \<Rightarrow> bool" where
  "year_token_here prev_word (c1 # c2 # c3 # c4 # rest) =
     (\<not> prev_word \<and> c1 = CHR ''2'' \<and> c2 = CHR ''0'' \<and> py_isdigit c3 \<and> py_isdigit c4
      \<and> (case rest of [] \<Rightarrow> True | c # _ \<Rightarrow> \<not> py_isword c))"
| "year_token_here prev_word _ = False"

fun search_year_token_from :: "bool \<Rightarrow> string \<Rightarrow> bool" where
  "search_year_token_from prev_word [] = False"
| "search_year_token_from prev_word (c # cs) =
     (year_token_here prev_word (c # cs) \<or> search_year_token_from (py_isword c) cs)"

text \<open>\<open>re.search(r"\b(20\d{2}|202\d)\b", text)\<close> finds a match.\<close>

definition search_year_token :: "string \<Rightarrow> bool" where
  "search_year_token text = search_year_token_from False text"

text \<open>
  \<open>\b\d{2,}\b\<close> at the head of the text: a run of at least two digits that no word
  character precedes or follows.
\<close>

definition number_token_here :: "bool \<Rightarrow> string \<Rightarrow> bool" where
  "number_token_here prev_word s =
     (\<not> prev_word \<and> 2 \<le> length (takeWhile py_isdigit s)
      \<and> (case dropWhile py_isdigit s of [] \<Rightarrow> True | c # _ \<Rightarrow> \<not> py_isword c))"

fun search_number_token_from :: "bool \<Rightarrow> string \<Rightarrow> bool" where
  "search_number_token_from prev_word [] = False"
| "search_number_token_from prev_word (c # cs) =
     (number_token_here prev_word (c # cs) \<or> search_number_token_from (py_isword c) cs)"

definition search_number_token :: "string \<Rightarrow> bool" where
  "search_number_token text = search_number_token_from False text"

datatype clar_value = Number int | Text string

text \<open>A clarification dict: the keys \<open>field\<close>, \<open>prompt\<close>, \<open>type\<close>, \<open>default\<close>, \<open>options\<close>.\<close>

record clarification =
  clar_field :: string
  clar_prompt :: string
  clar_type :: string
  clar_default :: clar_value
  clar_options :: "string list option"

text \<open>
  What \<open>_detect_clarifications\<close> reads from the metadata loader: the key \<open>typical_high\<close> of
  the column \<open>accounts.balance\<close> when there is one, and
  \<open>get_distinct_values('accounts', 'type')\<close>.
\<close>

record planner_metadata =
  typical_high :: "int option"
  account_types :: "string list"

definition min_balance_clarification :: "planner_metadata \<Rightarrow> clarification" where
  "min_balance_clarification md =
     \<lparr>clar_field = ''min_balance'',
      clar_prompt = ''What minimum balance should count as 'high'?'',
      clar_type = ''number'',
      clar_default = Number (case typical_high md of None \<Rightarrow> 20000 | Some t \<Rightarrow> t),
      clar_options = None\<rparr>"

definition date_range_clarification :: clarification where
  "date_range_clarification =
     \<lparr>clar_field = ''date_range'',
      clar_prompt = ''What date range do you mean by 'recent'?'',
      clar_type = ''text'',
      clar_default = Text ''last 30 days'',
      clar_options = None\<rparr>"

definition q1_clarification :: clarification where
  "q1_clarification =
     \<lparr>clar_field = ''date_range'',
      clar_prompt = ''Confirm date range for Q1'',
      clar_type = ''text'',
      clar_default = Text ''2025-01-01..2025-03-31'',
      clar_options = None\<rparr>"

definition account_type_clarification :: "planner_metadata \<Rightarrow> clarification" where
  "account_type_clarification md =
     \<lparr>clar_field = ''account_type'',
      clar_prompt = ''What type of account are you interested in?'',
      clar_type = ''select'',
      clar_default = Text ''checking'',
      clar_options = Some (account_types md)\<rparr>"

text \<open>
  \<open>PlannerAgent._detect_clarifications\<close>. In Python \<open>and\<close> binds tighter than \<open>or\<close>, so
  the condition of the second test reads \<open>"recent" in tl or ("last" in tl and not ...)\<close>.
\<close>

definition detect_clarifications :: "planner_metadata \<Rightarrow> string \<Rightarrow> clarification list" where
  "detect_clarifications md text =
     (let tl = py_lower text in
      (if (\<exists>k \<in> set [''high value'', ''high balance'', ''rich'', ''wealthy'']. sublist k tl)
           \<and> \<not> search_number_token text
       then [min_balance_clarification md] else [])
      @ (if sublist ''recent'' tl \<or> (sublist ''last'' tl \<and> \<not> search_year_token text)
         then [date_range_clarification] else [])
      @ (if sublist ''q1'' tl \<or> sublist ''first quarter'' tl
         then [q1_clarification] else [])
      @ (if sublist ''account'' tl \<and> \<not> (\<exists>acc_type \<in> set (account_types md). sublist acc_type tl)
         then [account_type_clarification md] else []))"


section \<open>Generator (backend/sql_generator.py): reading the answer of the language model\<close>

text \<open>\<open>s.find(sub)\<close>: the least index at which \<open>sub\<close> occurs in \<open>s\<close>; \<open>None\<close> is \<open>-1\<close>.\<close>

fun py_find0 :: "string \<Rightarrow> string \<Rightarrow> nat option" where
  "py_find0 sub [] = (if sub = [] then Some 0 else None)"
| "py_find0 sub (c # cs) =
     (if prefix sub (c # cs) then Some 0 else map_option Suc (py_find0 sub cs))"

text \<open>\<open>s.find(sub, start)\<close> for a start index that is not negative.\<close>

definition py_find :: "string \<Rightarrow> string \<Rightarrow> nat \<Rightarrow> nat option" where
  "py_find s sub start =
     (if length s < start then None
      else map_option (\<lambda>i. i + start) (py_find0 sub (drop start s)))"

text \<open>\<open>s[i:j]\<close> for indices that are not negative.\<close>

definition py_slice :: "string \<Rightarrow> nat \<Rightarrow> nat \<Rightarrow> string" where
  "py_slice s i j = drop i (take j s)"

definition fence :: string where
  "fence = [CHR 0x60, CHR 0x60, CHR 0x60]"

definition clean_llm_response :: "string \<Rightarrow> string" where
  "clean_llm_response response =
     (let cleaned = py_strip response;
          cleaned =
            (if prefix (fence @ ''json'') cleaned then
               (case py_find cleaned fence 7 of
                  Some end_marker \<Rightarrow> py_strip (py_slice cleaned 7 end_marker)
                | None \<Rightarrow> py_strip (drop 7 cleaned))
             else if prefix fence cleaned then
               (case py_find cleaned fence 3 of
                  Some end_marker \<Rightarrow> py_strip (py_slice cleaned 3 end_marker)
                | None \<Rightarrow> py_strip (drop 3 cleaned))
             else cleaned)
      in py_strip_chars [CHR 0x60] cleaned)"

text \<open>
  The values \<open>json.loads\<close> yields. \<open>json\<close> is Python's standard library: \<open>json.loads\<close> is a
  parameter of the model, \<open>None\<close> standing for \<open>JSONDecodeError\<close>. An object is the dict it
  is parsed into, as the list of its items.
\<close>

datatype json =
    JString string
  | JNumber int
  | JBool bool
  | JNull
  | JArray "json list"
  | JObject "(string \<times> json) list"

type_synonym json_loads = "string \<Rightarrow> json option"

text \<open>
  \<open>response_json.get(key, "").strip()\<close>: the stripped text, or \<open>None\<close> for the
  \<open>AttributeError\<close> raised when the value is not a string.
\<close>

definition get_stripped :: "(string \<times> json) list \<Rightarrow> string \<Rightarrow> string option" where
  "get_stripped items key =
     (case map_of items key of
        None \<Rightarrow> Some (py_strip [])
      | Some (JString v) \<Rightarrow> Some (py_strip v)
      | Some _ \<Rightarrow> None)"

text \<open>
  \<open>SQLGeneratorAgent._parse_llm_response\<close>: every exception is caught and turned into
  \<open>(None, None)\<close>.
\<close>

definition parse_llm_response :: "json_loads \<Rightarrow> string \<Rightarrow> string option \<times> string option" where
  "parse_llm_response loads response =
     (case loads (clean_llm_response response) of
        Some (JObject items) \<Rightarrow>
          (case get_stripped items ''SQLQuery'' of
             None \<Rightarrow> (None, None)
           | Some sql_query \<Rightarrow>
               (case get_stripped items ''Suggestion'' of
                  None \<Rightarrow> (None, None)
                | Some suggestion \<Rightarrow>
                    if sql_query = [] \<or> suggestion = [] then (None, None)
                    else (Some sql_query, Some suggestion)))
      | _ \<Rightarrow> (None, None))"

text \<open>
  The three forms in which the model hands over a JSON document: as it is, in a fenced
  block tagged \<open>json\<close>, and in a plain fenced block.
\<close>

definition wrap_raw :: "string \<Rightarrow> string" where
  "wrap_raw doc = doc"

definition wrap_json_fence :: "string \<Rightarrow> string" where
  "wrap_json_fence doc = fence @ ''json'' @ [CHR 0x0A] @ doc @ [CHR 0x0A] @ fence"

definition wrap_fence :: "string \<Rightarrow> string" where
  "wrap_fence doc = fence @ [CHR 0x0A] @ doc @ [CHR 0x0A] @ fence"


section \<open>Prompt builder (backend/llm\<open>_\<close>prompt\<open>_\<close>builder\<open>_\<close>new.py)\<close>

text \<open>
  The dict \<open>build_prompt\<close> serialises with \<open>json.dumps\<close>. Its sections
  \<open>critical_requirements\<close>, \<open>analysis_steps\<close> and \<open>requirements\<close> are constants and are left
  out; the prompt is represented by the dict, not by its text.
\<close>

record prompt_error_context =
  previous_error :: string
  correction_focus :: "string list"

record 'sc prompt_doc =
  input_query :: string
  schema_context :: 'sc
  chain_of_thought :: "string list"
  doc_detected_capabilities :: "string list"
  required_tables :: "string list"
  examples :: "string list"
  doc_error_context :: "prompt_error_context option"

text \<open>
  The state of a \<open>PromptingAgent\<close> that \<open>build_prompt\<close> reads: whether \<open>self.context\<close> is set,
  and the values of its helpers \<open>_build_schema_infused_context\<close>,
  \<open>_build_chain_of_thought_steps\<close> and \<open>_find_relevant_examples\<close> (the queries of the examples
  chosen), which depend on the schema metadata only.
\<close>

record 'sc prompting_agent =
  context_initialized :: bool
  build_schema_infused_context :: "py_error + 'sc"
  build_chain_of_thought_steps :: "string \<Rightarrow> string list \<Rightarrow> string list \<Rightarrow> string list"
  find_relevant_examples :: "string \<Rightarrow> string list \<Rightarrow> string list"

definition build_prompt ::
  "'sc prompting_agent \<Rightarrow> string \<Rightarrow> string list \<Rightarrow> string list \<Rightarrow> string option
     \<Rightarrow> py_error + 'sc prompt_doc" where
  "build_prompt pa query detected_tables capabilities error_context =
     (if \<not> context_initialized pa then Inl ValueError
      else
        let reasoning_steps = build_chain_of_thought_steps pa query detected_tables capabilities;
            relevant_examples = find_relevant_examples pa query detected_tables
        in case build_schema_infused_context pa of
             Inl e \<Rightarrow> Inl e
           | Inr sc \<Rightarrow>
               Inr \<lparr>input_query = query,
                    schema_context = sc,
                    chain_of_thought = reasoning_steps,
                    doc_detected_capabilities = capabilities,
                    required_tables = detected_tables,
                    examples = relevant_examples,
                    doc_error_context =
                      (case error_context of
                         None \<Rightarrow> None
                       | Some e \<Rightarrow>
                           if e = [] then None
                           else Some \<lparr>previous_error = e,
                                      correction_focus =
                                        [''Verify column names against schema'',
                                         ''Check join conditions'',
                                         ''Validate value domains'',
                                         ''Review aggregation logic'']\<rparr>)\<rparr>)"

section \<open>Generator (backend/sql\<open>_\<close>generator.py): generation and repair\<close>

text \<open>The dict \<open>_try_llm_error_correction\<close> hands to \<open>build_error_correction_prompt\<close>.\<close>

record error_correction_context =
  ecc_nl_query :: string
  ecc_original_sql :: string
  ecc_error_message :: "string option"
  ecc_attempt_number :: nat
  ecc_retriever_context :: ctx_bundle
  ecc_detected_tables :: "string list"
  ecc_detected_capabilities :: "string list"

text \<open>
  Modelled from the spec: \<open>PromptingAgent.build_error_correction_prompt\<close> is called by the
  generator but its code is not among the sources. The spec has the prompt of the
  error-correction mode carry the previous SQL and the literal error message, so the prompt
  it builds is represented by the context it is built from (\<open>Correction_prompt\<close>).
\<close>

datatype 'sc llm_prompt =
    Generation_prompt "'sc prompt_doc"
  | Correction_prompt error_correction_context

text \<open>
  The collaborators of a \<open>SQLGeneratorAgent\<close>, as functions on a world \<open>'w\<close>:
  \<open>llm_provider.generate_text\<close> (\<open>None\<close> when the call fails; the temperature is a float and
  is left out), \<open>validator.validate_sql\<close> and \<open>_test_sql_execution\<close> (success and error
  text), \<open>json.loads\<close>, and \<open>_exclude_problematic_columns\<close>, whose rewriting by regular
  expressions is not modelled.
\<close>

record ('w, 'sc) generator =
  prompting :: "'sc prompting_agent"
  llm_generate_text :: "'sc llm_prompt \<Rightarrow> 'w \<Rightarrow> string option \<times> 'w"
  validator_validate_sql :: "string \<Rightarrow> 'w \<Rightarrow> (bool \<times> string option) \<times> 'w"
  executor_smoke :: "string \<Rightarrow> 'w \<Rightarrow> (bool \<times> string option) \<times> 'w"
  loads :: json_loads
  exclude_problematic_columns :: "string \<Rightarrow> string \<Rightarrow> string"

text \<open>
  The local variables of \<open>_try_llm_generation\<close>; \<open>prompt\<close> is \<open>None\<close> while the variable is
  unbound. \<open>sent\<close> lists the prompts handed to the language model so far.
\<close>

record 'sc gen_state =
  st_error_context :: "string option"
  st_attempt_number :: nat
  st_current_sql :: "string option"
  st_prompt :: "'sc llm_prompt option"
  st_sent :: "'sc llm_prompt list"

definition next_attempt :: "'sc gen_state \<Rightarrow> 'sc gen_state" where
  "next_attempt st = st\<lparr>st_attempt_number := st_attempt_number st + 1\<rparr>"

text \<open>
  The second half of an iteration: the call of the model with \<open>prompt\<close>, the parse, the
  validation and the smoke execution. \<open>Inl\<close> is \<open>return True, sql, suggestion\<close>, with
  the prompts sent; \<open>Inr\<close> is the state for the next iteration. An unbound \<open>prompt\<close> raises, and the exception is caught.
\<close>

definition generation_call ::
  "('w, 'sc) generator \<Rightarrow> 'sc gen_state \<Rightarrow> 'w
     \<Rightarrow> ((string \<times> string option \<times> 'sc llm_prompt list) + 'sc gen_state) \<times> 'w" where
  "generation_call g st w =
     (case st_prompt st of
        None \<Rightarrow> (Inr (next_attempt st), w)
      | Some p \<Rightarrow>
          (case llm_generate_text g p w of
             (None, w1) \<Rightarrow> (Inr (next_attempt (st\<lparr>st_sent := st_sent st @ [p]\<rparr>)), w1)
           | (Some response, w1) \<Rightarrow>
               let st1 = st\<lparr>st_sent := st_sent st @ [p]\<rparr> in
               (case parse_llm_response (loads g) (py_strip response) of
                  (Some sql, Some suggestion) \<Rightarrow>
                    let st2 = st1\<lparr>st_current_sql := Some sql\<rparr> in
                    (case validator_validate_sql g sql w1 of
                       ((True, error_msg), w2) \<Rightarrow>
                         (case executor_smoke g sql w2 of
                            ((True, err), w3) \<Rightarrow> (Inl (sql, Some suggestion, st_sent st2), w3)
                          | ((False, err), w3) \<Rightarrow>
                              (Inr (next_attempt
                                      (st2\<lparr>st_error_context :=
                                             Some (case err of None \<Rightarrow> ''Execution failed''
                                                   | Some e \<Rightarrow> e)\<rparr>)), w3))
                     | ((False, error_msg), w2) \<Rightarrow>
                         (Inr (next_attempt (st2\<lparr>st_error_context := error_msg\<rparr>)), w2))
                | _ \<Rightarrow> (Inr (next_attempt st1), w1))))"

text \<open>
  \<open>_try_llm_error_correction\<close>: \<open>None\<close> is \<open>success = False\<close>, otherwise the corrected SQL
  and the suggestion.
\<close>

definition try_llm_error_correction ::
  "('w, 'sc) generator \<Rightarrow> string \<Rightarrow> string \<Rightarrow> string option \<Rightarrow> gen_ctx \<Rightarrow> nat \<Rightarrow> 'w
     \<Rightarrow> (string \<times> string option) option \<times> 'sc llm_prompt \<times> 'w" where
  "try_llm_error_correction g query original_sql error_msg ctx attempt w =
     (let correction_prompt =
            Correction_prompt
              \<lparr>ecc_nl_query = query, ecc_original_sql = original_sql,
               ecc_error_message = error_msg, ecc_attempt_number = attempt,
               ecc_retriever_context = ctx_retrieval_context ctx,
               ecc_detected_tables = ctx_detected_tables ctx,
               ecc_detected_capabilities = ctx_detected_capabilities ctx\<rparr>
      in case llm_generate_text g correction_prompt w of
           (None, w1) \<Rightarrow> (None, correction_prompt, w1)
         | (Some response, w1) \<Rightarrow>
             (case parse_llm_response (loads g) (py_strip response) of
                (Some corrected_sql, suggestion) \<Rightarrow>
                  (Some (corrected_sql, suggestion), correction_prompt, w1)
              | _ \<Rightarrow> (None, correction_prompt, w1)))"

text \<open>The code after the loop of \<open>_try_llm_generation\<close>.\<close>

definition after_attempts ::
  "('w, 'sc) generator \<Rightarrow> 'sc gen_state \<Rightarrow> 'w \<Rightarrow> (bool \<times> string \<times> string option) \<times> 'w" where
  "after_attempts g st w =
     (let failed = (False, ''ERROR: Failed to generate valid SQL after multiple attempts'', None)
      in case (st_current_sql st, st_error_context st) of
           (Some cs, Some ec) \<Rightarrow>
             if cs = [] \<or> ec = [] then (failed, w)
             else
               let simplified_sql = exclude_problematic_columns g cs ec in
               if simplified_sql \<noteq> cs then
                 (case validator_validate_sql g simplified_sql w of
                    ((True, e), w1) \<Rightarrow>
                      ((True, simplified_sql,
                        Some ''Simplified query with problematic columns excluded''), w1)
                  | ((False, e), w1) \<Rightarrow> (failed, w1))
               else (failed, w)
         | _ \<Rightarrow> (failed, w))"

text \<open>
  The loop \<open>while attempts_left > 0\<close> of \<open>_try_llm_generation\<close>: every path through its body
  returns or lowers \<open>attempts_left\<close> by one.
\<close>

fun try_llm_loop ::
  "('w, 'sc) generator \<Rightarrow> string \<Rightarrow> gen_ctx \<Rightarrow> nat \<Rightarrow> 'sc gen_state \<Rightarrow> 'w
     \<Rightarrow> (bool \<times> string \<times> string option) \<times> 'sc llm_prompt list \<times> 'w" where
  "try_llm_loop g query ctx 0 st w =
     (case after_attempts g st w of (r, w1) \<Rightarrow> (r, st_sent st, w1))"
| "try_llm_loop g query ctx (Suc attempts_left) st w =
     (if st_attempt_number st = 1 then
        (case build_prompt (prompting g) query (ctx_detected_tables ctx)
                (ctx_detected_capabilities ctx) (st_error_context st) of
           Inl e \<Rightarrow> try_llm_loop g query ctx attempts_left (next_attempt st) w
         | Inr doc \<Rightarrow>
             (case generation_call g (st\<lparr>st_prompt := Some (Generation_prompt doc)\<rparr>) w of
                (Inl (sql, suggestion, prompts), w1) \<Rightarrow>
                  ((True, sql, suggestion), prompts, w1)
              | (Inr st1, w1) \<Rightarrow> try_llm_loop g query ctx attempts_left st1 w1))
      else
        (case (case st_current_sql st of
                 None \<Rightarrow> None
               | Some cs \<Rightarrow>
                   if cs = [] then None
                   else Some (try_llm_error_correction g query cs (st_error_context st) ctx
                                (st_attempt_number st) w)) of
           Some (Some (corrected_sql, suggestion), p, w1) \<Rightarrow>
             (case validator_validate_sql g corrected_sql w1 of
                ((True, error_msg), w2) \<Rightarrow>
                  ((True, corrected_sql, suggestion), st_sent st @ [p], w2)
              | ((False, error_msg), w2) \<Rightarrow>
                  try_llm_loop g query ctx attempts_left
                    (next_attempt (st\<lparr>st_current_sql := Some corrected_sql,
                                      st_error_context := error_msg,
                                      st_sent := st_sent st @ [p]\<rparr>)) w2)
         | Some (None, p, w1) \<Rightarrow>
             (case generation_call g (st\<lparr>st_sent := st_sent st @ [p]\<rparr>) w1 of
                (Inl (sql, suggestion, prompts), w2) \<Rightarrow>
                  ((True, sql, suggestion), prompts, w2)
              | (Inr st1, w2) \<Rightarrow> try_llm_loop g query ctx attempts_left st1 w2)
         | None \<Rightarrow>
             (case generation_call g st w of
                (Inl (sql, suggestion, prompts), w1) \<Rightarrow>
                  ((True, sql, suggestion), prompts, w1)
              | (Inr st1, w1) \<Rightarrow> try_llm_loop g query ctx attempts_left st1 w1)))"

definition try_llm_generation ::
  "('w, 'sc) generator \<Rightarrow> string \<Rightarrow> gen_ctx \<Rightarrow> nat \<Rightarrow> 'w
     \<Rightarrow> (bool \<times> string \<times> string option) \<times> 'sc llm_prompt list \<times> 'w" where
  "try_llm_generation g query ctx attempts_left w =
     try_llm_loop g query ctx attempts_left
       \<lparr>st_error_context = None, st_attempt_number = 1, st_current_sql = None, st_prompt = None,
        st_sent = []\<rparr> w"

text \<open>\<open>SQLValidator.get_error_context\<close> (backend/sql\<open>_\<close>validator.py).\<close>

record sql_error_context =
  error_type :: string
  ctx_suggestion :: string
  context_examples :: "string list"

definition get_error_context :: "string \<Rightarrow> sql_error_context" where
  "get_error_context error_msg =
     (let error_lower = py_lower error_msg in
      if sublist ''no such table'' error_lower then
        \<lparr>error_type = ''table_not_found'',
         ctx_suggestion = ''Check table names and ensure they exist in the schema'',
         context_examples = [''FROM customers c'', ''JOIN accounts a ON c.id = a.customer_id'']\<rparr>
      else if sublist ''no such column'' error_lower then
        \<lparr>error_type = ''column_not_found'',
         ctx_suggestion = ''Verify column names and table aliases'',
         context_examples = [''SELECT c.first_name, c.last_name, a.account_number'',
                             ''WHERE a.status = 'active' '']\<rparr>
      else if sublist ''ambiguous'' error_lower then
        \<lparr>error_type = ''ambiguous_column'',
         ctx_suggestion = ''Use table aliases to qualify column names'',
         context_examples = [''SELECT c.id AS customer_id, a.id AS account_id'',
                             ''ON c.branch_id = b.id'']\<rparr>
      else if sublist ''syntax error'' error_lower then
        \<lparr>error_type = ''syntax_error'',
         ctx_suggestion = ''Check SQL syntax, especially JOINs and conditions'',
         context_examples = [''LEFT JOIN branches b ON c.branch_id = b.id'',
                             ''WHERE a.type IN ('checking', 'savings')'']\<rparr>
      else
        \<lparr>error_type = ''unknown'', ctx_suggestion = ''Please review the query syntax'',
         context_examples = []\<rparr>)"

text \<open>
  \<open>SQLGeneratorAgent.repair_sql(query, gen_ctx, hint)\<close>. A hint of \<open>None\<close> makes
  \<open>get_error_context\<close> raise, and the exception is caught. The value is the SQL returned,
  the prompts handed to the language model, and the world left behind.
\<close>

definition repair_sql ::
  "('w, 'sc) generator \<Rightarrow> string \<Rightarrow> gen_ctx \<Rightarrow> string option \<Rightarrow> 'w
     \<Rightarrow> string \<times> 'sc llm_prompt list \<times> 'w" where
  "repair_sql g query ctx hint w =
     (case hint of
        None \<Rightarrow> (''SELECT 1;'', [], w)
      | Some h \<Rightarrow>
          let error_context = get_error_context h in
          (case try_llm_generation g query ctx 2 w of
             ((True, sql, suggestion), prompts, w1) \<Rightarrow> (sql, prompts, w1)
           | ((False, sql, suggestion), prompts, w1) \<Rightarrow> (''SELECT 1;'', prompts, w1)))"


section \<open>Notions used to state the properties\<close>



text \<open>A text that is empty or holds white space only.\<close>

definition blank :: "string \<Rightarrow> bool" where
  "blank s = list_all py_isspace s"

text \<open>No table name of the schema occurs in the text, letter case aside.\<close>

definition no_table_named_in :: "schema_tables \<Rightarrow> string \<Rightarrow> bool" where
  "no_table_named_in schema s =
     list_all (\<lambda>table. \<not> sublist (py_upper table) (py_upper s)) (map fst schema)"

section \<open>Example data\<close>

text \<open>The schema of the banking database, as tests/test\<open>_\<close>validator.py sets it up.\<close>

definition banking_schema :: schema_tables where
  "banking_schema =
     [(''customers'', [''id'', ''first_name'', ''last_name'', ''email'', ''phone'', ''address'',
                       ''date_of_birth'', ''gender'', ''national_id'', ''created_at'',
                       ''updated_at'', ''branch_id'']),
      (''accounts'', [''id'', ''customer_id'', ''account_number'', ''type'', ''balance'',
                      ''opened_at'', ''interest_rate'', ''status'', ''branch_id'', ''created_at'',
                      ''updated_at'']),
      (''branches'', [''id'', ''name'', ''address'', ''city'', ''state'', ''zip_code'',
                      ''manager_id'', ''created_at'', ''updated_at'']),
      (''employees'', [''id'', ''branch_id'', ''name'', ''email'', ''phone'', ''position'',
                       ''hire_date'', ''salary'', ''created_at'', ''updated_at'']),
      (''transactions'', [''id'', ''account_id'', ''transaction_date'', ''amount'', ''type'',
                          ''description'', ''status'', ''created_at'', ''updated_at'',
                          ''employee_id''])]"

text \<open>A token that is not white space, and a blank between two tokens.\<close>

definition tk :: "string \<Rightarrow> sql_token" where
  "tk v = \<lparr>tok_value = v, tok_is_whitespace = False\<rparr>"

definition ws :: sql_token where
  "ws = \<lparr>tok_value = '' '', tok_is_whitespace = True\<rparr>"

text \<open>The statement of \<open>test_validate_with_cte\<close>, on one line.\<close>

definition cte_query :: string where
  "cte_query =
     ''WITH high_balance AS (SELECT * FROM accounts WHERE balance > 10000) SELECT * FROM high_balance''"

definition truncate_query :: string where
  "truncate_query = ''SELECT TRUNCATE FROM customers''"

text \<open>
  The top-level tokens \<open>sqlparse\<close> splits the example statements into: a common table
  expression and its body form one identifier token. \<open>example_parse\<close> agrees with
  \<open>sqlparse.parse\<close> on these statements and on blank text.
\<close>

definition example_statements :: "(string \<times> sql_statement list) list" where
  "example_statements =
     [(''SELECT 1'', [[tk ''SELECT'', ws, tk ''1'']]),
      (cte_query,
       [[tk ''WITH'', ws,
         tk ''high_balance AS (SELECT * FROM accounts WHERE balance > 10000)'', ws,
         tk ''SELECT'', ws, tk ''*'', ws, tk ''FROM'', ws, tk ''high_balance'']]),
      (truncate_query,
       [[tk ''SELECT'', ws, tk ''TRUNCATE'', ws, tk ''FROM'', ws, tk ''customers'']])]"

definition example_parse :: sql_parser where
  "example_parse s =
     (if blank s then []
      else case map_of example_statements s of None \<Rightarrow> [] | Some stmts \<Rightarrow> stmts)"

definition example_metadata :: planner_metadata where
  "example_metadata = \<lparr>typical_high = None, account_types = [''checking'', ''savings'']\<rparr>"

text \<open>
  A generator whose language model answers every prompt with the same well-formed document,
  which the validator and the smoke execution accept.
\<close>

definition example_answer :: string where
  \<open>example_answer =
     ''{"SQLQuery": "SELECT first_name FROM customers", "Suggestion": "first names of all customers"}''\<close>

definition example_loads :: json_loads where
  "example_loads s =
     (if s = example_answer
      then Some (JObject [(''SQLQuery'', JString ''SELECT first_name FROM customers''),
                          (''Suggestion'', JString ''first names of all customers'')])
      else None)"

definition example_prompting :: "unit prompting_agent" where
  "example_prompting =
     \<lparr>context_initialized = True,
      build_schema_infused_context = Inr (),
      build_chain_of_thought_steps = (\<lambda>query detected_tables capabilities. []),
      find_relevant_examples = (\<lambda>query detected_tables. [])\<rparr>"

definition example_generator :: "(unit, unit) generator" where
  "example_generator =
     \<lparr>prompting = example_prompting,
      llm_generate_text = (\<lambda>p w. (Some example_answer, w)),
      validator_validate_sql = (\<lambda>s w. ((True, None), w)),
      executor_smoke = (\<lambda>s w. ((True, None), w)),
      loads = example_loads,
      exclude_problematic_columns = (\<lambda>s e. s)\<rparr>"

definition example_gen_ctx :: gen_ctx where
  "example_gen_ctx =
     \<lparr>ctx_schema_context = [], ctx_tables_found = [''customers''],
      ctx_detected_capabilities = [], ctx_detected_tables = [''customers''],
      ctx_clarified_values = [],
      ctx_retrieval_context = \<lparr>bundle_schema_context = [], bundle_tables_found = [''customers'']\<rparr>\<rparr>"







text \<open>A schema with a table of a one-letter name.\<close>

definition one_letter_schema :: schema_tables where
  "one_letter_schema = [(''t'', [''id'', ''name''])]"

(*PROPERTIES*)
section \<open>Validator: properties\<close>

lemma forbidden_not_select_1:
  "find (\<lambda>word. word \<in> set [''SELECT'', ''1'']) forbidden = None"
  by (simp add: forbidden_def)

text \<open>
  C6, as the code has it. The statement \<open>SELECT 1\<close>, which \<open>sqlparse\<close> splits into the
  tokens \<open>SELECT\<close> and \<open>1\<close>, is valid with \<open>tables_used = []\<close> and the warning that no
  known table is referenced, for every schema none of whose table names occurs in the text
  of the statement, letter case aside (the validator looks for table names anywhere in the
  text, not after \<open>FROM\<close> or \<open>JOIN\<close>).
\<close>

theorem validate_select_1:
  assumes "parse ''SELECT 1'' = stmt # rest"
    and "significant_tokens stmt = [''SELECT'', ''1'']"
    and "no_table_named_in schema ''SELECT 1''"
  shows "validate schema parse ''SELECT 1'' =
           Inr \<lparr>is_valid = True, error = None, warning = Some ''No known tables referenced'',
                tables_used = Some []\<rparr>"
proof -
  have "filter (\<lambda>table. sublist (py_upper table) (py_upper ''SELECT 1'')) (map fst schema) = []"
    using assms(3) by (simp add: no_table_named_in_def filter_empty_conv list_all_iff)
  then show ?thesis
    using assms(1,2) forbidden_not_select_1
    by (simp add: validate_def Let_def)
qed

theorem validate_select_1_witness:
  "validate banking_schema example_parse ''SELECT 1'' =
     Inr \<lparr>is_valid = True, error = None, warning = Some ''No known tables referenced'',
          tables_used = Some []\<rparr>"
proof -
  have a: "example_parse ''SELECT 1'' = [tk ''SELECT'', ws, tk ''1''] # []"
    by code_simp
  have b: "significant_tokens [tk ''SELECT'', ws, tk ''1''] = [''SELECT'', ''1'']"
    by code_simp
  have c: "no_table_named_in banking_schema ''SELECT 1''"
    by code_simp
  show ?thesis
    using validate_select_1 [of example_parse "[tk ''SELECT'', ws, tk ''1'']" "[]" banking_schema]
      a b c
    by blast
qed

text \<open>
  C6 as the claim states it fails. With a table named \<open>t\<close> in the schema, the letter \<open>T\<close>
  of \<open>SELECT\<close> counts as a reference to it: \<open>tables_used\<close> is \<open>['t']\<close> and there is no
  warning.
\<close>

theorem validate_select_1_counterexample:
  "validate one_letter_schema example_parse ''SELECT 1'' =
     Inr \<lparr>is_valid = True, error = None, warning = None, tables_used = Some [''t'']\<rparr>"
  by code_simp

text \<open>
  The validator has no test of its own for an empty text: what it returns for one is decided
  by what \<open>sqlparse.parse\<close> makes of it. With no statement the text is invalid; with a
  statement of white space only, \<open>tokens[0]\<close> raises.
\<close>

lemma validate_no_statement:
  "parse q = [] \<Longrightarrow> validate schema parse q = Inr (validation_failure ''Invalid SQL syntax'')"
  by (simp add: validate_def)

lemma validate_whitespace_statement:
  "parse q = stmt # rest \<Longrightarrow> list_all tok_is_whitespace stmt
     \<Longrightarrow> validate schema parse q = Inl IndexError"
  by (simp add: validate_def significant_tokens_def list_all_iff filter_empty_conv)

text \<open>
  C5. The claim has a statement that begins with \<open>WITH\<close> pass the test of its leading
  verb. The validator rejects the statement of \<open>test_validate_with_cte\<close>, whose first
  significant token is \<open>WITH\<close>, with \<open>Only SELECT statements are allowed\<close>.
\<close>

theorem validate_rejects_cte:
  "significant_tokens (hd (example_parse cte_query)) ! 0 = ''WITH''
   \<and> validate banking_schema example_parse cte_query =
       Inr (validation_failure ''Only SELECT statements are allowed'')"
  by code_simp

section \<open>Planner: properties\<close>

text \<open>
  C8. The claim has no \<open>date_range\<close> clarification for a question with \<open>recent\<close> and a
  year. The planner emits it for \<open>Show recent transactions from 2024\<close>, which holds the year
  token \<open>2024\<close>; with \<open>last\<close> in place of \<open>recent\<close> it emits none.
\<close>

theorem recent_with_year_asks_date_range:
  "search_year_token ''Show recent transactions from 2024''
   \<and> detect_clarifications example_metadata ''Show recent transactions from 2024''
       = [date_range_clarification]
   \<and> detect_clarifications example_metadata ''Show last transactions from 2024'' = []"
  by code_simp

section \<open>Generator: properties\<close>

text \<open>
  C3. The claim has the prompt of a repair attempt carry the previous SQL and the error
  message. \<open>repair_sql\<close> called with the hint \<open>no such column: full_name\<close> sends one prompt,
  the prompt of a first generation, whose \<open>error_context\<close> section is absent; and the value
  of \<open>repair_sql\<close> does not depend on the hint at all.
\<close>

theorem repair_sql_drops_hint:
  "repair_sql example_generator ''List customer names'' example_gen_ctx
       (Some ''no such column: full_name'') () =
     (''SELECT first_name FROM customers'',
      [Generation_prompt
         \<lparr>input_query = ''List customer names'', schema_context = (), chain_of_thought = [],
          doc_detected_capabilities = [], required_tables = [''customers''], examples = [],
          doc_error_context = None\<rparr>],
      ())
   \<and> repair_sql g query ctx (Some h) w = repair_sql g query ctx (Some h') w"
proof -
  have a: "repair_sql example_generator ''List customer names'' example_gen_ctx
       (Some ''no such column: full_name'') () =
     (''SELECT first_name FROM customers'',
      [Generation_prompt
         \<lparr>input_query = ''List customer names'', schema_context = (), chain_of_thought = [],
          doc_detected_capabilities = [], required_tables = [''customers''], examples = [],
          doc_error_context = None\<rparr>],
      ())"
    by code_simp
  have b: "repair_sql g query ctx (Some h) w = repair_sql g query ctx (Some h') w"
    by (simp add: repair_sql_def)
  show ?thesis using a b by blast
qed

section \<open>Executor: properties\<close>

















end
